theory Spec2Isabelle
  imports Main "HOL-Library.AList"
begin

section \<open>Values, objects and thrown values\<close>

text \<open>
  The service of \<^verbatim>\<open>src/index.ts\<close> talks to three collaborators it does not own:
  the HTTP client \<^verbatim>\<open>this.http\<close>, the chat session (\<^verbatim>\<open>session.send\<close>,
  \<^verbatim>\<open>session.execute\<close>, \<^verbatim>\<open>session.text\<close>) and the event bus \<^verbatim>\<open>ctx.serial\<close>.
  They are parameters of the model. Every call to one of them is appended to a list of
  effects, and what the collaborator answers may depend on everything that happened
  before, so that the same request can fail first and succeed when retried.

  JavaScript values are the datatype \<open>jsval\<close>; an object literal is an association list
  in insertion order.
\<close>

datatype jsval =
    JUndefined
  | JNull
  | JBool bool
  | JNum int
  | JStr string
  | JObj "(string \<times> jsval) list"

type_synonym dict = "(string \<times> jsval) list"

text \<open>JavaScript truthiness, as \<^verbatim>\<open>if (x)\<close> and \<^verbatim>\<open>!x\<close> read a value.\<close>

fun truthy :: "jsval \<Rightarrow> bool" where
  "truthy JUndefined = False"
| "truthy JNull = False"
| "truthy (JBool b) = b"
| "truthy (JNum n) = (n \<noteq> 0)"
| "truthy (JStr s) = (s \<noteq> [])"
| "truthy (JObj fields) = True"

text \<open>
  Object spread \<^verbatim>\<open>{ ...base, ...extra }\<close>: the properties of \<open>extra\<close> are assigned
  one after the other, from left to right; an existing key keeps its place and takes the
  new value, a new key goes to the end. A parameter that was left out
  (\<^verbatim>\<open>headers?: Dict\<close>) is \<open>None\<close> and spreads nothing.
\<close>

fun assign_all :: "dict \<Rightarrow> dict \<Rightarrow> dict" where
  "assign_all base [] = base"
| "assign_all base ((k, v) # rest) = assign_all (AList.update k v base) rest"

fun spread :: "dict \<Rightarrow> dict option \<Rightarrow> dict" where
  "spread base None = base"
| "spread base (Some extra) = assign_all base extra"

text \<open>A string that may be \<^verbatim>\<open>undefined\<close> (an optional configuration field), as a value.\<close>

fun opt_str :: "string option \<Rightarrow> jsval" where
  "opt_str None = JUndefined"
| "opt_str (Some s) = JStr s"

record response =
  status :: int
  response_data :: jsval

text \<open>
  What a rejected promise carries. \<^verbatim>\<open>Quester.isAxiosError\<close> holds of the first
  constructor only. An error object of another kind may have a \<^verbatim>\<open>response\<close> field
  of its own; anything else that was thrown is a plain value.
\<close>

datatype thrown =
    AxiosError string "response option"
  | OtherError string "response option"
  | ThrownValue jsval

fun isAxiosError :: "thrown \<Rightarrow> bool" where
  "isAxiosError (AxiosError msg r) = True"
| "isAxiosError (OtherError msg r) = False"
| "isAxiosError (ThrownValue v) = False"

text \<open>
  \<^verbatim>\<open>error.response?.status\<close>. The source reads it only after
  \<^verbatim>\<open>Quester.isAxiosError(error)\<close> has held (the \<^verbatim>\<open>||\<close> is short-circuit), so the
  last equation is never used by \<open>request\<close>.
\<close>

fun response_status :: "thrown \<Rightarrow> int option" where
  "response_status (AxiosError msg r) = map_option status r"
| "response_status (OtherError msg r) = map_option status r"
| "response_status (ThrownValue v) = None"

section \<open>Configuration, credentials and the collaborators\<close>

record config =
  appId :: "string option"
  appSecret :: "string option"
  requestTimeout :: "nat option"

record OAuth =
  access_token :: string
  expires_in :: string
  refresh_token :: string
  refresh_token_expires_in :: string
  token_type :: string
  scope :: string

text \<open>
  \<^verbatim>\<open>session.user.github\<close>. Both fields are strings (columns \<^verbatim>\<open>string(50)\<close>); a
  user without a token has the empty string, which is what \<^verbatim>\<open>!accessToken\<close> tests.
  The records \<open>user\<close> and \<open>session\<close> are extensible: their \<open>more\<close> parts stand for every
  other field of the user row and of the session.
\<close>

record github_user =
  accessToken :: string
  refreshToken :: string

record user =
  github :: github_user

record 'u session =
  user :: "'u user_scheme"

text \<open>The options object handed to the HTTP client.\<close>

record request_config =
  data :: jsval
  params :: "dict option"
  headers :: dict
  timeout :: "nat option"

datatype effect =
    LoggerDebug string string jsval
  | HttpCall string string request_config
  | HttpPost string jsval request_config
  | SessionSend string
  | SessionExecute string

text \<open>
  The collaborators: each answers a call from the effects so far and the call's
  arguments, with a value or with what it throws. \<open>session_text\<close> is \<^verbatim>\<open>session.text\<close>,
  the lookup of a message by its key.
\<close>

record world =
  http_reply :: "effect list \<Rightarrow> string \<Rightarrow> string \<Rightarrow> request_config \<Rightarrow> thrown + jsval"
  post_reply :: "effect list \<Rightarrow> string \<Rightarrow> jsval \<Rightarrow> request_config \<Rightarrow> thrown + OAuth"
  send_reply :: "effect list \<Rightarrow> string \<Rightarrow> thrown + unit"
  execute_reply :: "effect list \<Rightarrow> string \<Rightarrow> thrown + unit"
  session_text :: "string \<Rightarrow> string"

fun is_http :: "effect \<Rightarrow> bool" where
  "is_http (HttpCall m u c) = True"
| "is_http (HttpPost u d c) = True"
| "is_http (LoggerDebug m u d) = False"
| "is_http (SessionSend msg) = False"
| "is_http (SessionExecute cmd) = False"

definition http_calls :: "effect list \<Rightarrow> effect list" where
  "http_calls tr = filter is_http tr"

section \<open>The service\<close>

definition token_url :: string where
  "token_url = ''https://github.com/login/oauth/access_token''"

text \<open>\<^verbatim>\<open>getTokens(params)\<close>: one POST, whose answer is returned as it is.\<close>

definition token_config :: "config \<Rightarrow> dict \<Rightarrow> request_config" where
  "token_config cfg ps =
     \<lparr> data = JUndefined,
       params = Some (spread [(''client_id'', opt_str (appId cfg)),
                              (''client_secret'', opt_str (appSecret cfg))] (Some ps)),
       headers = [(''Accept'', JStr ''application/json'')],
       timeout = requestTimeout cfg \<rparr>"

definition getTokens ::
  "world \<Rightarrow> config \<Rightarrow> effect list \<Rightarrow> dict \<Rightarrow> effect list \<times> (thrown + OAuth)" where
  "getTokens w cfg tr ps =
     (tr @ [HttpPost token_url (JObj []) (token_config cfg ps)],
      post_reply w tr token_url (JObj []) (token_config cfg ps))"

text \<open>\<^verbatim>\<open>_request(method, url, session, data, headers)\<close>.\<close>

definition api_config ::
  "config \<Rightarrow> ('u, 's) session_scheme \<Rightarrow> jsval \<Rightarrow> dict option \<Rightarrow> request_config" where
  "api_config cfg s dat hdrs =
     \<lparr> data = dat,
       params = None,
       headers = spread [(''accept'', JStr ''application/vnd.github.v3+json''),
                         (''authorization'', JStr (''token '' @ accessToken (github (user s))))]
                        hdrs,
       timeout = requestTimeout cfg \<rparr>"

definition request_inner ::
  "world \<Rightarrow> config \<Rightarrow> effect list \<Rightarrow> string \<Rightarrow> string \<Rightarrow> ('u, 's) session_scheme \<Rightarrow>
     jsval \<Rightarrow> dict option \<Rightarrow> effect list \<times> (thrown + jsval)" where
  "request_inner w cfg tr method url s dat hdrs =
     (let tr1 = tr @ [LoggerDebug method url dat] in
      (tr1 @ [HttpCall method url (api_config cfg s dat hdrs)],
       http_reply w tr1 method url (api_config cfg s dat hdrs)))"

text \<open>
  \<^verbatim>\<open>authorize(session, message)\<close>: send the message, then run the command
  \<^verbatim>\<open>github.authorize\<close>; the promise resolves to \<^verbatim>\<open>undefined\<close>, or rejects with
  what either step throws.
\<close>

definition authorize :: "world \<Rightarrow> effect list \<Rightarrow> string \<Rightarrow> effect list \<times> (thrown + jsval)" where
  "authorize w tr message =
     (let tr1 = tr @ [SessionSend message] in
      case send_reply w tr message of
        Inl e \<Rightarrow> (tr1, Inl e)
      | Inr u \<Rightarrow>
          (tr1 @ [SessionExecute ''github.authorize''],
           case execute_reply w tr1 ''github.authorize'' of
             Inl e \<Rightarrow> Inl e
           | Inr u' \<Rightarrow> Inr JUndefined))"

text \<open>The two assignments of the refresh path.\<close>

definition set_accessToken :: "string \<Rightarrow> ('u, 's) session_scheme \<Rightarrow> ('u, 's) session_scheme" where
  "set_accessToken v s = s\<lparr>user := (user s)\<lparr>github := (github (user s))\<lparr>accessToken := v\<rparr>\<rparr>\<rparr>"

definition set_refreshToken :: "string \<Rightarrow> ('u, 's) session_scheme \<Rightarrow> ('u, 's) session_scheme" where
  "set_refreshToken v s = s\<lparr>user := (user s)\<lparr>github := (github (user s))\<lparr>refreshToken := v\<rparr>\<rparr>\<rparr>"

text \<open>The test of the first \<^verbatim>\<open>catch\<close>: the error is thrown again when it holds.\<close>

definition rethrown :: "thrown \<Rightarrow> bool" where
  "rethrown e = (\<not> isAxiosError e \<or> response_status e \<noteq> Some 401)"

definition refresh_params :: "('u, 's) session_scheme \<Rightarrow> dict" where
  "refresh_params s =
     [(''refresh_token'', JStr (refreshToken (github (user s)))),
      (''grant_type'', JStr ''refresh_token'')]"

text \<open>
  \<^verbatim>\<open>request(method, url, session, body, headers)\<close>. The result is the session as the
  call leaves it, the effects, and what the promise resolves to (\<open>Inr\<close>) or rejects
  with (\<open>Inl\<close>).
\<close>

definition request ::
  "world \<Rightarrow> config \<Rightarrow> effect list \<Rightarrow> string \<Rightarrow> string \<Rightarrow> ('u, 's) session_scheme \<Rightarrow>
     jsval \<Rightarrow> dict option \<Rightarrow> ('u, 's) session_scheme \<times> effect list \<times> (thrown + jsval)" where
  "request w cfg tr method url s body hdrs =
     (if accessToken (github (user s)) = [] then
        (s, authorize w tr (session_text w ''github.require-auth''))
      else
        case request_inner w cfg tr method url s body hdrs of
          (tr1, Inr v) \<Rightarrow> (s, tr1, Inr v)
        | (tr1, Inl error) \<Rightarrow>
            if rethrown error then (s, tr1, Inl error)
            else
              (case getTokens w cfg tr1 (refresh_params s) of
                 (tr2, Inl e) \<Rightarrow> (s, authorize w tr2 (session_text w ''github.auth-expired''))
               | (tr2, Inr dat) \<Rightarrow>
                   (let s1 = set_accessToken (access_token dat) s;
                        s2 = set_refreshToken (refresh_token dat) s1
                    in (s2, request_inner w cfg tr2 method url s2 body hdrs))))"

definition final_session ::
  "('u, 's) session_scheme \<times> effect list \<times> (thrown + jsval) \<Rightarrow> ('u, 's) session_scheme" where
  "final_session r = fst r"

definition effects :: "'a \<times> effect list \<times> 'b \<Rightarrow> effect list" where
  "effects r = fst (snd r)"

definition outcome :: "'a \<times> effect list \<times> 'b \<Rightarrow> 'b" where
  "outcome r = snd (snd r)"

section \<open>Event dispatch\<close>

text \<open>
  \<^verbatim>\<open>CommonPayload\<close>: \<^verbatim>\<open>action?: string\<close> and whatever else the event carries. The
  bus \<^verbatim>\<open>ctx.serial(name, payload)\<close> is a parameter; the calls made to it are recorded
  as pairs of the name and the payload.
\<close>

record payload =
  action :: "string option"

type_synonym 'p serial_call = "string \<times> 'p payload_scheme"

type_synonym 'p bus = "'p serial_call list \<Rightarrow> string \<Rightarrow> 'p payload_scheme \<Rightarrow> thrown + jsval"

definition ctx_serial ::
  "'p bus \<Rightarrow> 'p serial_call list \<Rightarrow> string \<Rightarrow> 'p payload_scheme \<Rightarrow>
     'p serial_call list \<times> (thrown + jsval)" where
  "ctx_serial bus tr name p = (tr @ [(name, p)], bus tr name p)"

text \<open>
  \<^verbatim>\<open>if (payload.action)\<close>: the action is there and is not the empty string.
  \<open>action_text\<close> is the action as the template literal \<^verbatim>\<open>${payload.action}\<close>
  writes it.
\<close>

fun action_truthy :: "string option \<Rightarrow> bool" where
  "action_truthy None = False"
| "action_truthy (Some a) = (a \<noteq> [])"

fun action_text :: "string option \<Rightarrow> string" where
  "action_text None = ''undefined''"
| "action_text (Some a) = a"

definition specific_key :: "string \<Rightarrow> string option \<Rightarrow> string" where
  "specific_key event a = ''github/event/'' @ event @ ''/'' @ action_text a"

definition general_key :: "string \<Rightarrow> string" where
  "general_key event = ''github/event/'' @ event"

text \<open>
  \<^verbatim>\<open>emit(event, payload)\<close>. \<^verbatim>\<open>result\<close> starts as \<^verbatim>\<open>undefined\<close>; a bus that
  throws ends the call at once.
\<close>

definition emit ::
  "'p bus \<Rightarrow> 'p serial_call list \<Rightarrow> string \<Rightarrow> 'p payload_scheme \<Rightarrow>
     'p serial_call list \<times> (thrown + jsval)" where
  "emit bus tr event p =
     (case (if action_truthy (action p)
            then ctx_serial bus tr (specific_key event (action p)) p
            else (tr, Inr JUndefined)) of
        (tr1, Inl e) \<Rightarrow> (tr1, Inl e)
      | (tr1, Inr result) \<Rightarrow>
          if \<not> truthy result then ctx_serial bus tr1 (general_key event) p
          else (tr1, Inr result))"

text \<open>The calls a run added to the effects it started from.\<close>

definition new_effects :: "'e list \<Rightarrow> 'e list \<Rightarrow> 'e list" where
  "new_effects before after = drop (length before) after"

text \<open>The keys of the headers a caller passed.\<close>

fun own_keys :: "dict option \<Rightarrow> string set" where
  "own_keys None = {}"
| "own_keys (Some h) = fst ` set h"

fun is_refresh :: "effect \<Rightarrow> bool" where
  "is_refresh (HttpPost u d c) = True"
| "is_refresh (HttpCall m u c) = False"
| "is_refresh (LoggerDebug m u d) = False"
| "is_refresh (SessionSend msg) = False"
| "is_refresh (SessionExecute cmd) = False"

section \<open>Concrete collaborators and inputs\<close>

text \<open>
  A scripted world: the first HTTP call of a run gets \<open>first\<close>, every later call to
  the API gets \<open>later\<close>, the token endpoint answers \<open>refresh\<close>; the session accepts
  every message and command, and the text of a key is the key in brackets.
\<close>

definition scripted :: "(thrown + jsval) \<Rightarrow> (thrown + jsval) \<Rightarrow> (thrown + OAuth) \<Rightarrow> world" where
  "scripted first later refresh =
     \<lparr> http_reply = (\<lambda>tr m u c. if http_calls tr = [] then first else later),
       post_reply = (\<lambda>tr u d c. refresh),
       send_reply = (\<lambda>tr msg. Inr ()),
       execute_reply = (\<lambda>tr cmd. Inr ()),
       session_text = (\<lambda>key. ''['' @ key @ '']'') \<rparr>"

definition unauthorized :: thrown where
  "unauthorized = AxiosError ''Request failed with status code 401''
                    (Some \<lparr> status = 401, response_data = JNull \<rparr>)"

definition impostor_401 :: thrown where
  "impostor_401 = OtherError ''not from the HTTP client''
                    (Some \<lparr> status = 401, response_data = JNull \<rparr>)"

definition server_error :: thrown where
  "server_error = AxiosError ''Request failed with status code 500''
                    (Some \<lparr> status = 500, response_data = JNull \<rparr>)"

definition octocat :: jsval where
  "octocat = JObj [(''login'', JStr ''octocat'')]"

definition tokens_A2 :: OAuth where
  "tokens_A2 = \<lparr> access_token = ''A2'', expires_in = ''28800'', refresh_token = ''R2'',
                 refresh_token_expires_in = ''15811200'', token_type = ''bearer'',
                 scope = [] \<rparr>"

definition cfg0 :: config where
  "cfg0 = \<lparr> appId = Some ''Iv1.app'', appSecret = Some ''shh'', requestTimeout = Some 5000 \<rparr>"

text \<open>A session with the tokens A1 and R1, a user row with one more field, and a platform.\<close>

definition session_A1 :: "(nat, string) session_scheme" where
  "session_A1 =
     \<lparr> user = \<lparr> github = \<lparr> accessToken = ''A1'', refreshToken = ''R1'' \<rparr>, \<dots> = 7 \<rparr>,
       \<dots> = ''discord'' \<rparr>"

definition session_none :: "(nat, string) session_scheme" where
  "session_none =
     \<lparr> user = \<lparr> github = \<lparr> accessToken = [], refreshToken = [] \<rparr>, \<dots> = 7 \<rparr>,
       \<dots> = ''discord'' \<rparr>"

text \<open>A bus with one handler, for the general key of \<^verbatim>\<open>issues\<close>.\<close>

definition issues_bus :: "nat bus" where
  "issues_bus tr name p =
     (if name = ''github/event/issues'' then Inr (JObj [(''summary'', JStr ''closed #7'')])
      else Inr JUndefined)"

text \<open>A bus whose handlers answer every key with the key.\<close>

definition echo_bus :: "nat bus" where
  "echo_bus tr name p = Inr (JStr name)"

definition closed_7 :: "nat payload_scheme" where
  "closed_7 = \<lparr> action = Some ''closed'', \<dots> = 7 \<rparr>"

definition empty_action :: "nat payload_scheme" where
  "empty_action = \<lparr> action = Some [], \<dots> = 7 \<rparr>"

section \<open>Object spread\<close>

lemma map_of_assign_all: "map_of (assign_all base extra) = map_of base ++ map_of (rev extra)"
  by (induction extra arbitrary: base) (auto simp: update_conv' fun_eq_iff map_add_def split: option.splits)

lemma map_of_rev_absent: "k \<notin> fst ` set h \<Longrightarrow> map_of (rev h) k = None"
proof -
  assume "k \<notin> fst ` set h"
  then have "k \<notin> fst ` set (rev h)" by simp
  then show ?thesis by (rule map_of_eq_None_iff[THEN iffD2])
qed

lemma map_of_rev_distinct:
  assumes "distinct (map fst h)"
  shows "map_of (rev h) k = map_of h k"
proof (cases "map_of h k")
  case None
  then have "k \<notin> fst ` set h" by (simp add: map_of_eq_None_iff)
  then have "map_of (rev h) k = None" by (rule map_of_rev_absent)
  with None show ?thesis by simp
next
  case (Some v)
  then have "(k, v) \<in> set (rev h)" by (simp add: map_of_SomeD)
  moreover from assms have "distinct (map fst (rev h))" by (simp add: rev_map[symmetric])
  ultimately have "map_of (rev h) k = Some v" by (rule map_of_is_SomeI[rotated])
  with Some show ?thesis by simp
qed

lemma spread_absent: "k \<notin> own_keys hdrs \<Longrightarrow> map_of (spread base hdrs) k = map_of base k"
  by (cases hdrs) (simp_all add: map_of_assign_all map_add_def map_of_rev_absent)

lemma spread_present:
  assumes "distinct (map fst h)" and "map_of h k = Some v"
  shows "map_of (spread base (Some h)) k = Some v"
  using assms by (simp add: map_of_assign_all map_of_rev_distinct)

section \<open>The paths of \<open>request\<close>\<close>

text \<open>
  One lemma for each way through \<open>request\<close>, read off its definition: what it returns,
  given what the collaborators answer at the effects the call has reached.
\<close>

lemma request_no_token:
  "accessToken (github (user s)) = [] \<Longrightarrow>
   request w cfg tr method url s body hdrs =
     (s, authorize w tr (session_text w ''github.require-auth''))"
  by (simp add: request_def)

lemma request_first_success:
  "accessToken (github (user s)) \<noteq> [] \<Longrightarrow>
   http_reply w (tr @ [LoggerDebug method url body]) method url (api_config cfg s body hdrs) = Inr v \<Longrightarrow>
   request w cfg tr method url s body hdrs =
     (s, tr @ [LoggerDebug method url body, HttpCall method url (api_config cfg s body hdrs)], Inr v)"
  by (simp add: request_def request_inner_def)

lemma request_rethrows:
  "accessToken (github (user s)) \<noteq> [] \<Longrightarrow>
   http_reply w (tr @ [LoggerDebug method url body]) method url (api_config cfg s body hdrs) = Inl e \<Longrightarrow>
   rethrown e \<Longrightarrow>
   request w cfg tr method url s body hdrs =
     (s, tr @ [LoggerDebug method url body, HttpCall method url (api_config cfg s body hdrs)], Inl e)"
  by (simp add: request_def request_inner_def)

lemma request_refresh_fails:
  "accessToken (github (user s)) \<noteq> [] \<Longrightarrow>
   http_reply w (tr @ [LoggerDebug method url body]) method url (api_config cfg s body hdrs) = Inl e \<Longrightarrow>
   \<not> rethrown e \<Longrightarrow>
   post_reply w (tr @ [LoggerDebug method url body, HttpCall method url (api_config cfg s body hdrs)])
     token_url (JObj []) (token_config cfg (refresh_params s)) = Inl e' \<Longrightarrow>
   request w cfg tr method url s body hdrs =
     (s, authorize w
           (tr @ [LoggerDebug method url body, HttpCall method url (api_config cfg s body hdrs),
                  HttpPost token_url (JObj []) (token_config cfg (refresh_params s))])
           (session_text w ''github.auth-expired''))"
  by (simp add: request_def request_inner_def getTokens_def)

lemma request_refreshes:
  "accessToken (github (user s)) \<noteq> [] \<Longrightarrow>
   http_reply w (tr @ [LoggerDebug method url body]) method url (api_config cfg s body hdrs) = Inl e \<Longrightarrow>
   \<not> rethrown e \<Longrightarrow>
   post_reply w (tr @ [LoggerDebug method url body, HttpCall method url (api_config cfg s body hdrs)])
     token_url (JObj []) (token_config cfg (refresh_params s)) = Inr dat \<Longrightarrow>
   s' = set_refreshToken (refresh_token dat) (set_accessToken (access_token dat) s) \<Longrightarrow>
   request w cfg tr method url s body hdrs =
     (s',
      tr @ [LoggerDebug method url body, HttpCall method url (api_config cfg s body hdrs),
            HttpPost token_url (JObj []) (token_config cfg (refresh_params s)),
            LoggerDebug method url body, HttpCall method url (api_config cfg s' body hdrs)],
      http_reply w
        (tr @ [LoggerDebug method url body, HttpCall method url (api_config cfg s body hdrs),
               HttpPost token_url (JObj []) (token_config cfg (refresh_params s)),
               LoggerDebug method url body])
        method url (api_config cfg s' body hdrs))"
  by (simp add: request_def request_inner_def getTokens_def Let_def)

lemma github_after_refresh:
  "github (user (set_refreshToken r (set_accessToken a s))) = \<lparr> accessToken = a, refreshToken = r \<rparr>"
  by (simp add: set_refreshToken_def set_accessToken_def)

lemma frame_after_refresh:
  "session.more (set_refreshToken r (set_accessToken a s)) = session.more s \<and>
   user.more (user (set_refreshToken r (set_accessToken a s))) = user.more (user s)"
  by (simp add: set_refreshToken_def set_accessToken_def)

lemma authorize_effects:
  "fst (authorize w tr msg) =
     tr @ SessionSend msg #
       (case send_reply w tr msg of Inl e \<Rightarrow> [] | Inr u \<Rightarrow> [SessionExecute ''github.authorize''])"
  by (simp add: authorize_def Let_def split: sum.splits)

lemma rethrown_iff:
  "rethrown e = (\<not> (\<exists>msg resp. e = AxiosError msg (Some resp) \<and> status resp = 401))"
proof (cases e)
  case (AxiosError msg r)
  then show ?thesis by (cases r) (auto simp: rethrown_def)
next
  case (OtherError msg r)
  then show ?thesis by (simp add: rethrown_def)
next
  case (ThrownValue v)
  then show ?thesis by (simp add: rethrown_def)
qed

lemma refresh_params_merged:
  "params (token_config cfg (refresh_params s)) =
     Some [(''client_id'', opt_str (appId cfg)), (''client_secret'', opt_str (appSecret cfg)),
           (''refresh_token'', JStr (refreshToken (github (user s)))),
           (''grant_type'', JStr ''refresh_token'')]"
  by (simp add: token_config_def refresh_params_def)

lemma final_session_request:
  "final_session (request w cfg tr method url s body hdrs) =
     (if accessToken (github (user s)) = [] then s
      else case http_reply w (tr @ [LoggerDebug method url body]) method url
                  (api_config cfg s body hdrs) of
             Inr v \<Rightarrow> s
           | Inl e \<Rightarrow>
               if rethrown e then s
               else (case post_reply w
                            (tr @ [LoggerDebug method url body,
                                   HttpCall method url (api_config cfg s body hdrs)])
                            token_url (JObj []) (token_config cfg (refresh_params s)) of
                       Inl e' \<Rightarrow> s
                     | Inr dat \<Rightarrow>
                         set_refreshToken (refresh_token dat)
                           (set_accessToken (access_token dat) s)))"
  by (simp add: final_session_def request_def request_inner_def getTokens_def Let_def
      split: sum.splits)

lemma keys_differ: "specific_key event a \<noteq> general_key event"
  by (simp add: specific_key_def general_key_def)

section \<open>The claims about \<open>request\<close>\<close>

text \<open>
  In the statements below the first HTTP call of a run is the answer of \<open>http_reply\<close> at
  the effects \<open>tr @ [LoggerDebug method url body]\<close>, and the token endpoint is asked at
  the effects that follow the first call. A call that "fails with HTTP status 401" is a
  call whose promise rejects with an Axios error whose response has the status 401.
\<close>

text \<open>
  C1. The first call fails with status 401 and the refresh succeeds. As claimed, the
  retry would always carry the new access token in its authorization header; a caller
  that passes an \<^verbatim>\<open>authorization\<close> header of its own overrides the default in the
  retry as in the first call, and the retry then carries the caller's value.
\<close>

theorem request_retry_authorization_counterexample:
  "accessToken (github (user session_A1)) \<noteq> [] \<and>
   isAxiosError unauthorized \<and> response_status unauthorized = Some 401 \<and>
   access_token tokens_A2 = ''A2'' \<and>
   request (scripted (Inl unauthorized) (Inr octocat) (Inr tokens_A2)) cfg0 []
     ''GET'' ''/user'' session_A1 JUndefined (Some [(''authorization'', JStr ''Bearer X'')]) =
     (\<lparr> user = \<lparr> github = \<lparr> accessToken = ''A2'', refreshToken = ''R2'' \<rparr>, \<dots> = 7 \<rparr>,
        \<dots> = ''discord'' \<rparr>,
      [LoggerDebug ''GET'' ''/user'' JUndefined,
       HttpCall ''GET'' ''/user''
         \<lparr> data = JUndefined, params = None,
           headers = [(''accept'', JStr ''application/vnd.github.v3+json''),
                      (''authorization'', JStr ''Bearer X'')],
           timeout = Some 5000 \<rparr>,
       HttpPost ''https://github.com/login/oauth/access_token'' (JObj [])
         \<lparr> data = JUndefined,
           params = Some [(''client_id'', JStr ''Iv1.app''), (''client_secret'', JStr ''shh''),
                          (''refresh_token'', JStr ''R1''),
                          (''grant_type'', JStr ''refresh_token'')],
           headers = [(''Accept'', JStr ''application/json'')],
           timeout = Some 5000 \<rparr>,
       LoggerDebug ''GET'' ''/user'' JUndefined,
       HttpCall ''GET'' ''/user''
         \<lparr> data = JUndefined, params = None,
           headers = [(''accept'', JStr ''application/vnd.github.v3+json''),
                      (''authorization'', JStr ''Bearer X'')],
           timeout = Some 5000 \<rparr>],
      Inr octocat) \<and>
   map_of [(''accept'', JStr ''application/vnd.github.v3+json''),
           (''authorization'', JStr ''Bearer X'')] ''authorization'' \<noteq> Some (JStr ''token A2'')"
  by (simp add: request_def request_inner_def getTokens_def scripted_def
        http_calls_def session_A1_def rethrown_def unauthorized_def tokens_A2_def
        set_accessToken_def set_refreshToken_def Let_def api_config_def token_config_def token_url_def
        refresh_params_def cfg0_def)

text \<open>
  C1, amended. The first call fails with status 401 and the refresh succeeds:
  \<open>request\<close> performs exactly one refresh, a POST whose parameters hold the stored
  refresh token and the grant type \<^verbatim>\<open>refresh_token\<close>, and exactly one retry of the
  original request, built from the session with the new tokens; the retry's
  authorization header carries the new access token unless the caller's own headers
  have the key \<^verbatim>\<open>authorization\<close>. The caller receives what the retry returns or
  throws, and nothing follows the retry.
\<close>

theorem request_refresh_retries_once:
  assumes "accessToken (github (user s)) \<noteq> []"
    and "http_reply w (tr @ [LoggerDebug method url body]) method url
           (api_config cfg s body hdrs) = Inl e"
    and "isAxiosError e" and "response_status e = Some 401"
    and "post_reply w (tr @ [LoggerDebug method url body,
                             HttpCall method url (api_config cfg s body hdrs)])
           token_url (JObj []) (token_config cfg (refresh_params s)) = Inr dat"
  shows "effects (request w cfg tr method url s body hdrs) =
           tr @ [LoggerDebug method url body,
                 HttpCall method url (api_config cfg s body hdrs),
                 HttpPost token_url (JObj []) (token_config cfg (refresh_params s)),
                 LoggerDebug method url body,
                 HttpCall method url
                   (api_config cfg (final_session (request w cfg tr method url s body hdrs))
                      body hdrs)] \<and>
         http_calls (new_effects tr (effects (request w cfg tr method url s body hdrs))) =
           [HttpCall method url (api_config cfg s body hdrs),
            HttpPost token_url (JObj []) (token_config cfg (refresh_params s)),
            HttpCall method url
              (api_config cfg (final_session (request w cfg tr method url s body hdrs))
                 body hdrs)] \<and>
         params (token_config cfg (refresh_params s)) =
           Some [(''client_id'', opt_str (appId cfg)),
                 (''client_secret'', opt_str (appSecret cfg)),
                 (''refresh_token'', JStr (refreshToken (github (user s)))),
                 (''grant_type'', JStr ''refresh_token'')] \<and>
         accessToken (github (user (final_session (request w cfg tr method url s body hdrs)))) =
           access_token dat \<and>
         (''authorization'' \<notin> own_keys hdrs \<longrightarrow>
            map_of (headers (api_config cfg
                      (final_session (request w cfg tr method url s body hdrs)) body hdrs))
              ''authorization'' = Some (JStr (''token '' @ access_token dat))) \<and>
         outcome (request w cfg tr method url s body hdrs) =
           http_reply w
             (tr @ [LoggerDebug method url body,
                    HttpCall method url (api_config cfg s body hdrs),
                    HttpPost token_url (JObj []) (token_config cfg (refresh_params s)),
                    LoggerDebug method url body])
             method url
             (api_config cfg (final_session (request w cfg tr method url s body hdrs))
                body hdrs)"
proof -
  define s' where "s' = set_refreshToken (refresh_token dat) (set_accessToken (access_token dat) s)"
  from assms(3,4) have "\<not> rethrown e" by (simp add: rethrown_def)
  with assms(1,2) have r: "request w cfg tr method url s body hdrs =
      (s',
       tr @ [LoggerDebug method url body, HttpCall method url (api_config cfg s body hdrs),
             HttpPost token_url (JObj []) (token_config cfg (refresh_params s)),
             LoggerDebug method url body, HttpCall method url (api_config cfg s' body hdrs)],
       http_reply w
         (tr @ [LoggerDebug method url body, HttpCall method url (api_config cfg s body hdrs),
                HttpPost token_url (JObj []) (token_config cfg (refresh_params s)),
                LoggerDebug method url body])
         method url (api_config cfg s' body hdrs))"
    using assms(5) s'_def by (rule request_refreshes)
  have fin: "final_session (request w cfg tr method url s body hdrs) = s'"
    by (simp add: r final_session_def)
  have tok: "accessToken (github (user s')) = access_token dat"
    by (simp add: s'_def github_after_refresh)
  have hdr: "''authorization'' \<notin> own_keys hdrs \<longrightarrow>
      map_of (headers (api_config cfg s' body hdrs)) ''authorization'' =
        Some (JStr (''token '' @ access_token dat))"
    by (simp add: api_config_def spread_absent tok)
  show ?thesis
    unfolding fin using hdr tok
    by (simp add: r effects_def outcome_def refresh_params_merged new_effects_def http_calls_def)
qed

theorem request_refresh_retries_once_witness:
  "accessToken (github (user session_A1)) \<noteq> [] \<and>
   isAxiosError unauthorized \<and> response_status unauthorized = Some 401 \<and>
   ''authorization'' \<notin> own_keys None \<and>
   effects (request (scripted (Inl unauthorized) (Inr octocat) (Inr tokens_A2)) cfg0 []
              ''GET'' ''/user'' session_A1 JUndefined None) =
     [LoggerDebug ''GET'' ''/user'' JUndefined,
      HttpCall ''GET'' ''/user''
        \<lparr> data = JUndefined, params = None,
          headers = [(''accept'', JStr ''application/vnd.github.v3+json''),
                     (''authorization'', JStr ''token A1'')],
          timeout = Some 5000 \<rparr>,
      HttpPost ''https://github.com/login/oauth/access_token'' (JObj [])
        \<lparr> data = JUndefined,
          params = Some [(''client_id'', JStr ''Iv1.app''), (''client_secret'', JStr ''shh''),
                         (''refresh_token'', JStr ''R1''),
                         (''grant_type'', JStr ''refresh_token'')],
          headers = [(''Accept'', JStr ''application/json'')],
          timeout = Some 5000 \<rparr>,
      LoggerDebug ''GET'' ''/user'' JUndefined,
      HttpCall ''GET'' ''/user''
        \<lparr> data = JUndefined, params = None,
          headers = [(''accept'', JStr ''application/vnd.github.v3+json''),
                     (''authorization'', JStr ''token A2'')],
          timeout = Some 5000 \<rparr>] \<and>
   github (user (final_session (request (scripted (Inl unauthorized) (Inr octocat) (Inr tokens_A2))
              cfg0 [] ''GET'' ''/user'' session_A1 JUndefined None))) =
     \<lparr> accessToken = ''A2'', refreshToken = ''R2'' \<rparr> \<and>
   outcome (request (scripted (Inl unauthorized) (Inr octocat) (Inr tokens_A2)) cfg0 []
              ''GET'' ''/user'' session_A1 JUndefined None) = Inr octocat"
proof -
  let ?w = "scripted (Inl unauthorized) (Inr octocat) (Inr tokens_A2)"
  let ?r = "request ?w cfg0 [] ''GET'' ''/user'' session_A1 JUndefined None"
  have h1: "accessToken (github (user session_A1)) \<noteq> []" by (simp add: session_A1_def)
  have h2: "http_reply ?w ([] @ [LoggerDebug ''GET'' ''/user'' JUndefined]) ''GET'' ''/user''
              (api_config cfg0 session_A1 JUndefined None) = Inl unauthorized"
    by (simp add: scripted_def http_calls_def)
  have h3: "isAxiosError unauthorized" by (simp add: unauthorized_def)
  have h4: "response_status unauthorized = Some 401" by (simp add: unauthorized_def)
  have h5: "post_reply ?w ([] @ [LoggerDebug ''GET'' ''/user'' JUndefined,
                HttpCall ''GET'' ''/user'' (api_config cfg0 session_A1 JUndefined None)])
              token_url (JObj []) (token_config cfg0 (refresh_params session_A1)) = Inr tokens_A2"
    by (simp add: scripted_def)
  have fin: "final_session ?r =
      \<lparr> user = \<lparr> github = \<lparr> accessToken = ''A2'', refreshToken = ''R2'' \<rparr>, \<dots> = 7 \<rparr>,
        \<dots> = ''discord'' \<rparr>"
    by (simp add: final_session_def request_def request_inner_def getTokens_def scripted_def
        http_calls_def session_A1_def rethrown_def unauthorized_def tokens_A2_def
        set_accessToken_def set_refreshToken_def Let_def)
  from request_refresh_retries_once [OF h1 h2 h3 h4 h5] h1 h3 h4 show ?thesis
    unfolding fin
    by (simp add: scripted_def http_calls_def api_config_def token_config_def token_url_def
        refresh_params_def session_A1_def cfg0_def)
qed

text \<open>
  C2. A session whose stored identity has no access token: \<open>request\<close> issues no HTTP
  call. It invokes \<open>authorize\<close> with the text of \<^verbatim>\<open>github.require-auth\<close> and returns
  what that call returns; the only effects are the message sent and, when sending did
  not throw, the command \<^verbatim>\<open>github.authorize\<close>.
\<close>

theorem request_without_token:
  assumes "accessToken (github (user s)) = []"
  shows "request w cfg tr method url s body hdrs =
           (s, authorize w tr (session_text w ''github.require-auth'')) \<and>
         effects (request w cfg tr method url s body hdrs) =
           tr @ SessionSend (session_text w ''github.require-auth'') #
             (case send_reply w tr (session_text w ''github.require-auth'') of
                Inl e \<Rightarrow> []
              | Inr u \<Rightarrow> [SessionExecute ''github.authorize'']) \<and>
         http_calls (new_effects tr (effects (request w cfg tr method url s body hdrs))) = []"
proof -
  from assms have r: "request w cfg tr method url s body hdrs =
      (s, authorize w tr (session_text w ''github.require-auth''))"
    by (rule request_no_token)
  then show ?thesis
    by (simp add: effects_def new_effects_def authorize_effects http_calls_def split: sum.splits)
qed

theorem request_without_token_witness:
  "accessToken (github (user session_none)) = [] \<and>
   request (scripted (Inr octocat) (Inr octocat) (Inr tokens_A2)) cfg0 [] ''GET'' ''/user''
     session_none JUndefined None =
     (session_none,
      [SessionSend ''[github.require-auth]'', SessionExecute ''github.authorize''],
      Inr JUndefined)"
proof -
  have h1: "accessToken (github (user session_none)) = []" by (simp add: session_none_def)
  from request_without_token [OF h1] h1 show ?thesis
    by (simp add: authorize_def scripted_def)
qed

text \<open>
  C3. The first call fails with status 401 and the refresh then fails with any error:
  the original request is not retried and no further HTTP call is made (the HTTP calls
  of the run are the first call and the POST of the refresh); \<open>request\<close> invokes
  \<open>authorize\<close> with the text of \<^verbatim>\<open>github.auth-expired\<close> and returns what that call
  returns.
\<close>

theorem request_refresh_failure_authorizes:
  assumes "accessToken (github (user s)) \<noteq> []"
    and "http_reply w (tr @ [LoggerDebug method url body]) method url
           (api_config cfg s body hdrs) = Inl e"
    and "isAxiosError e" and "response_status e = Some 401"
    and "post_reply w (tr @ [LoggerDebug method url body,
                             HttpCall method url (api_config cfg s body hdrs)])
           token_url (JObj []) (token_config cfg (refresh_params s)) = Inl e'"
  shows "request w cfg tr method url s body hdrs =
           (s, authorize w
                 (tr @ [LoggerDebug method url body,
                        HttpCall method url (api_config cfg s body hdrs),
                        HttpPost token_url (JObj []) (token_config cfg (refresh_params s))])
                 (session_text w ''github.auth-expired'')) \<and>
         http_calls (new_effects tr (effects (request w cfg tr method url s body hdrs))) =
           [HttpCall method url (api_config cfg s body hdrs),
            HttpPost token_url (JObj []) (token_config cfg (refresh_params s))]"
proof -
  from assms(3,4) have "\<not> rethrown e" by (simp add: rethrown_def)
  with assms(1,2) have r: "request w cfg tr method url s body hdrs =
      (s, authorize w
            (tr @ [LoggerDebug method url body,
                   HttpCall method url (api_config cfg s body hdrs),
                   HttpPost token_url (JObj []) (token_config cfg (refresh_params s))])
            (session_text w ''github.auth-expired''))"
    using assms(5) by (rule request_refresh_fails)
  then show ?thesis
    by (simp add: effects_def new_effects_def authorize_effects http_calls_def split: sum.splits)
qed

theorem request_refresh_failure_authorizes_witness:
  "accessToken (github (user session_A1)) \<noteq> [] \<and>
   isAxiosError unauthorized \<and> response_status unauthorized = Some 401 \<and>
   request (scripted (Inl unauthorized) (Inr octocat) (Inl server_error)) cfg0 [] ''GET'' ''/user''
     session_A1 JUndefined None =
     (session_A1,
      [LoggerDebug ''GET'' ''/user'' JUndefined,
       HttpCall ''GET'' ''/user''
         \<lparr> data = JUndefined, params = None,
           headers = [(''accept'', JStr ''application/vnd.github.v3+json''),
                      (''authorization'', JStr ''token A1'')],
           timeout = Some 5000 \<rparr>,
       HttpPost ''https://github.com/login/oauth/access_token'' (JObj [])
         \<lparr> data = JUndefined,
           params = Some [(''client_id'', JStr ''Iv1.app''), (''client_secret'', JStr ''shh''),
                          (''refresh_token'', JStr ''R1''),
                          (''grant_type'', JStr ''refresh_token'')],
           headers = [(''Accept'', JStr ''application/json'')],
           timeout = Some 5000 \<rparr>,
       SessionSend ''[github.auth-expired]'', SessionExecute ''github.authorize''],
      Inr JUndefined)"
proof -
  let ?w = "scripted (Inl unauthorized) (Inr octocat) (Inl server_error)"
  have h1: "accessToken (github (user session_A1)) \<noteq> []" by (simp add: session_A1_def)
  have h2: "http_reply ?w ([] @ [LoggerDebug ''GET'' ''/user'' JUndefined]) ''GET'' ''/user''
              (api_config cfg0 session_A1 JUndefined None) = Inl unauthorized"
    by (simp add: scripted_def http_calls_def)
  have h3: "isAxiosError unauthorized" by (simp add: unauthorized_def)
  have h4: "response_status unauthorized = Some 401" by (simp add: unauthorized_def)
  have h5: "post_reply ?w ([] @ [LoggerDebug ''GET'' ''/user'' JUndefined,
                HttpCall ''GET'' ''/user'' (api_config cfg0 session_A1 JUndefined None)])
              token_url (JObj []) (token_config cfg0 (refresh_params session_A1)) = Inl server_error"
    by (simp add: scripted_def)
  from request_refresh_failure_authorizes [OF h1 h2 h3 h4 h5] h1 h3 h4 show ?thesis
    by (simp add: authorize_def scripted_def api_config_def token_config_def token_url_def
        refresh_params_def session_A1_def cfg0_def)
qed

text \<open>
  C4. With an access token present, a first call that fails with any error other than
  HTTP status 401: \<open>request\<close> issues exactly one HTTP call and rejects with that very
  error; the session is the one it was given.
\<close>

theorem request_other_error_propagates:
  assumes "accessToken (github (user s)) \<noteq> []"
    and "http_reply w (tr @ [LoggerDebug method url body]) method url
           (api_config cfg s body hdrs) = Inl e"
    and "response_status e \<noteq> Some 401"
  shows "request w cfg tr method url s body hdrs =
           (s, tr @ [LoggerDebug method url body,
                     HttpCall method url (api_config cfg s body hdrs)], Inl e) \<and>
         http_calls (new_effects tr (effects (request w cfg tr method url s body hdrs))) =
           [HttpCall method url (api_config cfg s body hdrs)]"
proof -
  from assms(3) have "rethrown e" by (simp add: rethrown_def)
  with assms(1,2) have r: "request w cfg tr method url s body hdrs =
      (s, tr @ [LoggerDebug method url body,
                HttpCall method url (api_config cfg s body hdrs)], Inl e)"
    by (rule request_rethrows)
  then show ?thesis by (simp add: effects_def new_effects_def http_calls_def)
qed

theorem request_other_error_propagates_witness:
  "accessToken (github (user session_A1)) \<noteq> [] \<and>
   response_status server_error \<noteq> Some 401 \<and>
   request (scripted (Inl server_error) (Inr octocat) (Inr tokens_A2)) cfg0 [] ''GET'' ''/user''
     session_A1 JUndefined None =
     (session_A1,
      [LoggerDebug ''GET'' ''/user'' JUndefined,
       HttpCall ''GET'' ''/user''
         \<lparr> data = JUndefined, params = None,
           headers = [(''accept'', JStr ''application/vnd.github.v3+json''),
                      (''authorization'', JStr ''token A1'')],
           timeout = Some 5000 \<rparr>],
      Inl server_error)"
proof -
  have h1: "accessToken (github (user session_A1)) \<noteq> []" by (simp add: session_A1_def)
  have h2: "http_reply (scripted (Inl server_error) (Inr octocat) (Inr tokens_A2))
              ([] @ [LoggerDebug ''GET'' ''/user'' JUndefined]) ''GET'' ''/user''
              (api_config cfg0 session_A1 JUndefined None) = Inl server_error"
    by (simp add: scripted_def http_calls_def)
  have h3: "response_status server_error \<noteq> Some 401" by (simp add: server_error_def)
  from request_other_error_propagates [OF h1 h2 h3] h1 h3 show ?thesis
    by (simp add: api_config_def session_A1_def cfg0_def)
qed

text \<open>
  C5. The two stored tokens change as a pair or not at all. On the path of a successful
  refresh both are set to the \<^verbatim>\<open>access_token\<close> and \<^verbatim>\<open>refresh_token\<close> of the answer,
  and the retry, the last effect of the run, is built from the session that has both
  (the two assignments follow each other with no call to a collaborator in between).
  On every other path (no token, success at once, an error that is thrown again, a
  failed refresh) both keep their values. The session that \<open>request\<close> leaves never has
  one token of the answer and one of before.
\<close>

theorem request_tokens_change_as_pair:
  assumes "s' = final_session (request w cfg tr method url s body hdrs)"
    and "first = http_reply w (tr @ [LoggerDebug method url body]) method url
                   (api_config cfg s body hdrs)"
    and "refresh = post_reply w (tr @ [LoggerDebug method url body,
                                       HttpCall method url (api_config cfg s body hdrs)])
                     token_url (JObj []) (token_config cfg (refresh_params s))"
  shows "(accessToken (github (user s)) = [] \<longrightarrow> github (user s') = github (user s)) \<and>
         (\<forall>v. accessToken (github (user s)) \<noteq> [] \<and> first = Inr v \<longrightarrow>
              github (user s') = github (user s)) \<and>
         (\<forall>e. accessToken (github (user s)) \<noteq> [] \<and> first = Inl e \<and> rethrown e \<longrightarrow>
              github (user s') = github (user s)) \<and>
         (\<forall>e e'. accessToken (github (user s)) \<noteq> [] \<and> first = Inl e \<and> \<not> rethrown e \<and>
                 refresh = Inl e' \<longrightarrow>
              github (user s') = github (user s)) \<and>
         (\<forall>e dat. accessToken (github (user s)) \<noteq> [] \<and> first = Inl e \<and> \<not> rethrown e \<and>
                  refresh = Inr dat \<longrightarrow>
              github (user s') =
                \<lparr> accessToken = access_token dat, refreshToken = refresh_token dat \<rparr> \<and>
              last (effects (request w cfg tr method url s body hdrs)) =
                HttpCall method url (api_config cfg s' body hdrs)) \<and>
         (github (user s') = github (user s) \<or>
          (\<exists>dat. refresh = Inr dat \<and>
             github (user s') =
               \<lparr> accessToken = access_token dat, refreshToken = refresh_token dat \<rparr>))"
proof -
  have retry: "last (effects (request w cfg tr method url s body hdrs)) =
      HttpCall method url (api_config cfg s' body hdrs)"
    if "accessToken (github (user s)) \<noteq> []" "first = Inl e" "\<not> rethrown e" "refresh = Inr dat"
    for e dat
  proof -
    from that assms(2,3) have "request w cfg tr method url s body hdrs =
      (set_refreshToken (refresh_token dat) (set_accessToken (access_token dat) s),
       tr @ [LoggerDebug method url body, HttpCall method url (api_config cfg s body hdrs),
             HttpPost token_url (JObj []) (token_config cfg (refresh_params s)),
             LoggerDebug method url body,
             HttpCall method url (api_config cfg
               (set_refreshToken (refresh_token dat) (set_accessToken (access_token dat) s))
               body hdrs)],
       http_reply w
         (tr @ [LoggerDebug method url body, HttpCall method url (api_config cfg s body hdrs),
                HttpPost token_url (JObj []) (token_config cfg (refresh_params s)),
                LoggerDebug method url body])
         method url (api_config cfg
               (set_refreshToken (refresh_token dat) (set_accessToken (access_token dat) s))
               body hdrs))"
      by (simp add: request_refreshes [OF _ _ _ _ refl])
    then show ?thesis by (simp add: assms(1) final_session_def effects_def)
  qed
  have fin: "s' = (if accessToken (github (user s)) = [] then s
      else case first of
             Inr v \<Rightarrow> s
           | Inl e \<Rightarrow>
               if rethrown e then s
               else (case refresh of
                       Inl e' \<Rightarrow> s
                     | Inr dat \<Rightarrow>
                         set_refreshToken (refresh_token dat)
                           (set_accessToken (access_token dat) s)))"
    unfolding assms by (rule final_session_request)
  have pair: "github (user s') = github (user s) \<or>
          (\<exists>dat. refresh = Inr dat \<and>
             github (user s') =
               \<lparr> accessToken = access_token dat, refreshToken = refresh_token dat \<rparr>)"
    by (simp add: fin github_after_refresh split: sum.splits)
  have paths: "(accessToken (github (user s)) = [] \<longrightarrow> github (user s') = github (user s)) \<and>
         (\<forall>v. accessToken (github (user s)) \<noteq> [] \<and> first = Inr v \<longrightarrow>
              github (user s') = github (user s)) \<and>
         (\<forall>e. accessToken (github (user s)) \<noteq> [] \<and> first = Inl e \<and> rethrown e \<longrightarrow>
              github (user s') = github (user s)) \<and>
         (\<forall>e e'. accessToken (github (user s)) \<noteq> [] \<and> first = Inl e \<and> \<not> rethrown e \<and>
                 refresh = Inl e' \<longrightarrow>
              github (user s') = github (user s)) \<and>
         (\<forall>e dat. accessToken (github (user s)) \<noteq> [] \<and> first = Inl e \<and> \<not> rethrown e \<and>
                  refresh = Inr dat \<longrightarrow>
              github (user s') =
                \<lparr> accessToken = access_token dat, refreshToken = refresh_token dat \<rparr>)"
    by (simp add: fin github_after_refresh)
  from paths pair retry show ?thesis by blast
qed

theorem request_tokens_change_as_pair_witness:
  "accessToken (github (user session_A1)) \<noteq> [] \<and> \<not> rethrown unauthorized \<and>
   github (user (final_session
     (request (scripted (Inl unauthorized) (Inr octocat) (Inr tokens_A2)) cfg0 []
        ''GET'' ''/user'' session_A1 JUndefined None))) =
     \<lparr> accessToken = ''A2'', refreshToken = ''R2'' \<rparr> \<and>
   last (effects
     (request (scripted (Inl unauthorized) (Inr octocat) (Inr tokens_A2)) cfg0 []
        ''GET'' ''/user'' session_A1 JUndefined None)) =
     HttpCall ''GET'' ''/user''
       \<lparr> data = JUndefined, params = None,
         headers = [(''accept'', JStr ''application/vnd.github.v3+json''),
                    (''authorization'', JStr ''token A2'')],
         timeout = Some 5000 \<rparr>"
proof -
  let ?w = "scripted (Inl unauthorized) (Inr octocat) (Inr tokens_A2)"
  let ?r = "request ?w cfg0 [] ''GET'' ''/user'' session_A1 JUndefined None"
  have h1: "accessToken (github (user session_A1)) \<noteq> []" by (simp add: session_A1_def)
  have h2: "http_reply ?w ([] @ [LoggerDebug ''GET'' ''/user'' JUndefined]) ''GET'' ''/user''
              (api_config cfg0 session_A1 JUndefined None) = Inl unauthorized"
    by (simp add: scripted_def http_calls_def)
  have h3: "\<not> rethrown unauthorized" by (simp add: rethrown_def unauthorized_def)
  have h4: "post_reply ?w ([] @ [LoggerDebug ''GET'' ''/user'' JUndefined,
                HttpCall ''GET'' ''/user'' (api_config cfg0 session_A1 JUndefined None)])
              token_url (JObj []) (token_config cfg0 (refresh_params session_A1)) = Inr tokens_A2"
    by (simp add: scripted_def)
  from request_tokens_change_as_pair [OF refl refl refl] h1 h2 h3 h4
  have g: "github (user (final_session ?r)) =
             \<lparr> accessToken = access_token tokens_A2, refreshToken = refresh_token tokens_A2 \<rparr> \<and>
           last (effects ?r) =
             HttpCall ''GET'' ''/user'' (api_config cfg0 (final_session ?r) JUndefined None)"
    by blast
  then have tok: "accessToken (github (user (final_session ?r))) = ''A2''"
    by (simp add: tokens_A2_def)
  from g h1 h3 show ?thesis
    by (simp add: api_config_def tok tokens_A2_def cfg0_def)
qed

text \<open>
  C9. With a token present and a first call that throws \<open>e\<close>: the run holds a refresh
  (a POST to the token endpoint among its new effects) exactly when \<open>e\<close> is an Axios
  error whose response has the status 401. Every other thrown value is thrown again as
  it is, after the one HTTP call: in particular an error of another kind whatever
  status it carries, an Axios error without a response, and a value that is no error.
\<close>

theorem request_refresh_only_on_axios_401:
  assumes "accessToken (github (user s)) \<noteq> []"
    and "http_reply w (tr @ [LoggerDebug method url body]) method url
           (api_config cfg s body hdrs) = Inl e"
  shows "(filter is_refresh (new_effects tr (effects (request w cfg tr method url s body hdrs)))
            \<noteq> []) =
           (\<exists>msg resp. e = AxiosError msg (Some resp) \<and> status resp = 401) \<and>
         (\<not> (\<exists>msg resp. e = AxiosError msg (Some resp) \<and> status resp = 401) \<longrightarrow>
            request w cfg tr method url s body hdrs =
              (s, tr @ [LoggerDebug method url body,
                        HttpCall method url (api_config cfg s body hdrs)], Inl e)) \<and>
         ((\<exists>msg resp. e = OtherError msg resp) \<or> (\<exists>msg. e = AxiosError msg None) \<or>
          (\<exists>v. e = ThrownValue v) \<longrightarrow>
            request w cfg tr method url s body hdrs =
              (s, tr @ [LoggerDebug method url body,
                        HttpCall method url (api_config cfg s body hdrs)], Inl e))"
proof (cases "rethrown e")
  case True
  with assms have r: "request w cfg tr method url s body hdrs =
      (s, tr @ [LoggerDebug method url body,
                HttpCall method url (api_config cfg s body hdrs)], Inl e)"
    by (rule request_rethrows)
  from True have "\<not> (\<exists>msg resp. e = AxiosError msg (Some resp) \<and> status resp = 401)"
    by (simp add: rethrown_iff)
  then show ?thesis by (simp add: r effects_def new_effects_def)
next
  case False
  then have ax: "\<exists>msg resp. e = AxiosError msg (Some resp) \<and> status resp = 401"
    by (simp add: rethrown_iff)
  then have other: "\<not> ((\<exists>msg resp. e = OtherError msg resp) \<or> (\<exists>msg. e = AxiosError msg None) \<or>
      (\<exists>v. e = ThrownValue v))"
    by auto
  let ?tr2 = "tr @ [LoggerDebug method url body,
                    HttpCall method url (api_config cfg s body hdrs)]"
  let ?post = "HttpPost token_url (JObj []) (token_config cfg (refresh_params s))"
  have "filter is_refresh (new_effects tr (effects (request w cfg tr method url s body hdrs)))
          \<noteq> []"
  proof (cases "post_reply w ?tr2 token_url (JObj []) (token_config cfg (refresh_params s))")
    case (Inl e')
    with assms False have "request w cfg tr method url s body hdrs =
        (s, authorize w (?tr2 @ [?post]) (session_text w ''github.auth-expired''))"
      by (simp add: request_refresh_fails)
    then show ?thesis
      by (simp add: effects_def authorize_effects new_effects_def)
  next
    case (Inr dat)
    with assms False show ?thesis
      by (simp add: request_refreshes [OF _ _ _ _ refl] effects_def new_effects_def)
  qed
  with ax other show ?thesis by simp
qed

theorem request_refresh_only_on_axios_401_witness:
  "accessToken (github (user session_A1)) \<noteq> [] \<and>
   impostor_401 = OtherError ''not from the HTTP client''
                    (Some \<lparr> status = 401, response_data = JNull \<rparr>) \<and>
   request (scripted (Inl impostor_401) (Inr octocat) (Inr tokens_A2)) cfg0 [] ''GET'' ''/user''
     session_A1 JUndefined None =
     (session_A1,
      [LoggerDebug ''GET'' ''/user'' JUndefined,
       HttpCall ''GET'' ''/user''
         \<lparr> data = JUndefined, params = None,
           headers = [(''accept'', JStr ''application/vnd.github.v3+json''),
                      (''authorization'', JStr ''token A1'')],
           timeout = Some 5000 \<rparr>],
      Inl impostor_401) \<and>
   filter is_refresh
     (new_effects [] (effects (request (scripted (Inl impostor_401) (Inr octocat) (Inr tokens_A2))
        cfg0 [] ''GET'' ''/user'' session_A1 JUndefined None))) = []"
proof -
  let ?w = "scripted (Inl impostor_401) (Inr octocat) (Inr tokens_A2)"
  have h1: "accessToken (github (user session_A1)) \<noteq> []" by (simp add: session_A1_def)
  have h2: "http_reply ?w ([] @ [LoggerDebug ''GET'' ''/user'' JUndefined]) ''GET'' ''/user''
              (api_config cfg0 session_A1 JUndefined None) = Inl impostor_401"
    by (simp add: scripted_def http_calls_def)
  have h3: "\<exists>msg resp. impostor_401 = OtherError msg resp" by (simp add: impostor_401_def)
  have h4: "\<not> (\<exists>msg resp. impostor_401 = AxiosError msg (Some resp) \<and> status resp = 401)"
    by (simp add: impostor_401_def)
  from request_refresh_only_on_axios_401 [OF h1 h2] h1 h3 h4 show ?thesis
    by (simp add: api_config_def session_A1_def cfg0_def impostor_401_def effects_def
        new_effects_def)
qed

text \<open>
  C10. \<open>request\<close> writes nothing of the session but the two tokens: the other fields
  of the session and of the user row are those it was given, on every path. The session
  differs from the one given only after a first call that failed with an Axios 401 and a
  refresh that succeeded, and then it is the given one with the two assignments made. A
  request that succeeds at once, or throws an error whose status is not 401, leaves the
  session as it was.
\<close>

theorem request_frame:
  assumes "s' = final_session (request w cfg tr method url s body hdrs)"
    and "first = http_reply w (tr @ [LoggerDebug method url body]) method url
                   (api_config cfg s body hdrs)"
    and "refresh = post_reply w (tr @ [LoggerDebug method url body,
                                       HttpCall method url (api_config cfg s body hdrs)])
                     token_url (JObj []) (token_config cfg (refresh_params s))"
  shows "session.more s' = session.more s \<and>
         user.more (user s') = user.more (user s) \<and>
         (s' \<noteq> s \<longrightarrow>
            (\<exists>e dat. accessToken (github (user s)) \<noteq> [] \<and> first = Inl e \<and>
               isAxiosError e \<and> response_status e = Some 401 \<and> refresh = Inr dat \<and>
               s' = set_refreshToken (refresh_token dat)
                      (set_accessToken (access_token dat) s))) \<and>
         (\<forall>v. first = Inr v \<longrightarrow> s' = s) \<and>
         (\<forall>e. first = Inl e \<and> response_status e \<noteq> Some 401 \<longrightarrow> s' = s)"
proof -
  have fin: "s' = (if accessToken (github (user s)) = [] then s
      else case first of
             Inr v \<Rightarrow> s
           | Inl e \<Rightarrow>
               if rethrown e then s
               else (case refresh of
                       Inl e' \<Rightarrow> s
                     | Inr dat \<Rightarrow>
                         set_refreshToken (refresh_token dat)
                           (set_accessToken (access_token dat) s)))"
    unfolding assms by (rule final_session_request)
  have frame: "session.more s' = session.more s \<and> user.more (user s') = user.more (user s)"
    by (simp add: fin frame_after_refresh split: sum.splits)
  have only: "s' \<noteq> s \<longrightarrow>
            (\<exists>e dat. accessToken (github (user s)) \<noteq> [] \<and> first = Inl e \<and>
               isAxiosError e \<and> response_status e = Some 401 \<and> refresh = Inr dat \<and>
               s' = set_refreshToken (refresh_token dat)
                      (set_accessToken (access_token dat) s))"
    by (auto simp: fin rethrown_def split: sum.splits if_splits)
  have ok: "\<forall>v. first = Inr v \<longrightarrow> s' = s"
    by (simp add: fin)
  have err: "\<forall>e. first = Inl e \<and> response_status e \<noteq> Some 401 \<longrightarrow> s' = s"
    by (simp add: fin rethrown_def)
  from frame only ok err show ?thesis by blast
qed

theorem request_frame_witness:
  "final_session
     (request (scripted (Inl unauthorized) (Inr octocat) (Inr tokens_A2)) cfg0 []
        ''GET'' ''/user'' session_A1 JUndefined None) \<noteq> session_A1 \<and>
   session.more (final_session
     (request (scripted (Inl unauthorized) (Inr octocat) (Inr tokens_A2)) cfg0 []
        ''GET'' ''/user'' session_A1 JUndefined None)) = ''discord'' \<and>
   user.more (user (final_session
     (request (scripted (Inl unauthorized) (Inr octocat) (Inr tokens_A2)) cfg0 []
        ''GET'' ''/user'' session_A1 JUndefined None))) = 7 \<and>
   response_status server_error \<noteq> Some 401 \<and>
   final_session
     (request (scripted (Inl server_error) (Inr octocat) (Inr tokens_A2)) cfg0 []
        ''GET'' ''/user'' session_A1 JUndefined None) = session_A1 \<and>
   final_session
     (request (scripted (Inr octocat) (Inr octocat) (Inr tokens_A2)) cfg0 []
        ''GET'' ''/user'' session_A1 JUndefined None) = session_A1"
proof -
  let ?w1 = "scripted (Inl unauthorized) (Inr octocat) (Inr tokens_A2)"
  let ?w2 = "scripted (Inl server_error) (Inr octocat) (Inr tokens_A2)"
  let ?w3 = "scripted (Inr octocat) (Inr octocat) (Inr tokens_A2)"
  let ?r1 = "request ?w1 cfg0 [] ''GET'' ''/user'' session_A1 JUndefined None"
  have changed: "final_session ?r1 \<noteq> session_A1"
    by (simp add: final_session_request scripted_def http_calls_def session_A1_def rethrown_def
        unauthorized_def tokens_A2_def set_accessToken_def set_refreshToken_def)
  have h2: "http_reply ?w2 ([] @ [LoggerDebug ''GET'' ''/user'' JUndefined]) ''GET'' ''/user''
              (api_config cfg0 session_A1 JUndefined None) = Inl server_error"
    by (simp add: scripted_def http_calls_def)
  have h2': "response_status server_error \<noteq> Some 401" by (simp add: server_error_def)
  have h3: "http_reply ?w3 ([] @ [LoggerDebug ''GET'' ''/user'' JUndefined]) ''GET'' ''/user''
              (api_config cfg0 session_A1 JUndefined None) = Inr octocat"
    by (simp add: scripted_def http_calls_def)
  from request_frame [OF refl refl refl]
  have a: "session.more (final_session ?r1) = session.more session_A1 \<and>
           user.more (user (final_session ?r1)) = user.more (user session_A1)"
    by blast
  from request_frame [OF refl refl refl] h2 h2'
  have b: "final_session (request ?w2 cfg0 [] ''GET'' ''/user'' session_A1 JUndefined None) =
           session_A1"
    by blast
  from request_frame [OF refl refl refl] h3
  have c: "final_session (request ?w3 cfg0 [] ''GET'' ''/user'' session_A1 JUndefined None) =
           session_A1"
    by blast
  have d: "session.more session_A1 = ''discord'' \<and> user.more (user session_A1) = 7"
    by (simp add: session_A1_def)
  from changed a b c d h2' show ?thesis by simp
qed

text \<open>
  C7. Every call that \<open>request\<close> makes to the API for a session with a token has the
  method and URL of the request and the options of \<open>api_config\<close>, for the session as
  given or as the refresh left it; the first two effects are the log line and that call.
  The headers are the two defaults with the caller's headers spread over them: a default
  whose key the caller does not use is there with its value
  (\<^verbatim>\<open>accept: application/vnd.github.v3+json\<close>, \<^verbatim>\<open>authorization: token <accessToken>\<close>),
  and every header of the caller is there with the caller's value.
\<close>

theorem request_sends_default_headers:
  assumes "accessToken (github (user s)) \<noteq> []"
  shows "take 2 (new_effects tr (effects (request w cfg tr method url s body hdrs))) =
           [LoggerDebug method url body, HttpCall method url (api_config cfg s body hdrs)] \<and>
         (\<forall>x \<in> set (new_effects tr (effects (request w cfg tr method url s body hdrs))).
            \<forall>m u c. x = HttpCall m u c \<longrightarrow>
              m = method \<and> u = url \<and>
              (c = api_config cfg s body hdrs \<or>
               c = api_config cfg (final_session (request w cfg tr method url s body hdrs))
                     body hdrs)) \<and>
         (\<forall>t :: ('u, 's) session_scheme.
            headers (api_config cfg t body hdrs) =
              spread [(''accept'', JStr ''application/vnd.github.v3+json''),
                      (''authorization'', JStr (''token '' @ accessToken (github (user t))))]
                hdrs \<and>
            (''accept'' \<notin> own_keys hdrs \<longrightarrow>
               map_of (headers (api_config cfg t body hdrs)) ''accept'' =
                 Some (JStr ''application/vnd.github.v3+json'')) \<and>
            (''authorization'' \<notin> own_keys hdrs \<longrightarrow>
               map_of (headers (api_config cfg t body hdrs)) ''authorization'' =
                 Some (JStr (''token '' @ accessToken (github (user t))))) \<and>
            (\<forall>h k v. hdrs = Some h \<and> distinct (map fst h) \<and> map_of h k = Some v \<longrightarrow>
               map_of (headers (api_config cfg t body hdrs)) k = Some v))"
proof -
  have first: "take 2 (new_effects tr (effects (request w cfg tr method url s body hdrs))) =
           [LoggerDebug method url body, HttpCall method url (api_config cfg s body hdrs)]"
    using assms
    by (simp add: request_def request_inner_def getTokens_def authorize_def effects_def
        new_effects_def Let_def split: sum.splits)
  have every: "\<forall>x \<in> set (new_effects tr (effects (request w cfg tr method url s body hdrs))).
            \<forall>m u c. x = HttpCall m u c \<longrightarrow>
              m = method \<and> u = url \<and>
              (c = api_config cfg s body hdrs \<or>
               c = api_config cfg (final_session (request w cfg tr method url s body hdrs))
                     body hdrs)"
    using assms
    by (auto simp: request_def request_inner_def getTokens_def authorize_def effects_def
        new_effects_def final_session_def Let_def split: sum.splits)
  have hdr: "headers (api_config cfg t body hdrs) =
              spread [(''accept'', JStr ''application/vnd.github.v3+json''),
                      (''authorization'', JStr (''token '' @ accessToken (github (user t))))]
                hdrs \<and>
            (''accept'' \<notin> own_keys hdrs \<longrightarrow>
               map_of (headers (api_config cfg t body hdrs)) ''accept'' =
                 Some (JStr ''application/vnd.github.v3+json'')) \<and>
            (''authorization'' \<notin> own_keys hdrs \<longrightarrow>
               map_of (headers (api_config cfg t body hdrs)) ''authorization'' =
                 Some (JStr (''token '' @ accessToken (github (user t))))) \<and>
            (\<forall>h k v. hdrs = Some h \<and> distinct (map fst h) \<and> map_of h k = Some v \<longrightarrow>
               map_of (headers (api_config cfg t body hdrs)) k = Some v)"
    for t :: "('u, 's) session_scheme"
    by (auto simp: api_config_def spread_absent simp del: spread.simps
        intro: spread_present)
  from first every hdr show ?thesis by blast
qed

theorem request_sends_default_headers_witness:
  "accessToken (github (user session_A1)) \<noteq> [] \<and>
   ''authorization'' \<notin> own_keys (Some [(''accept'', JStr ''application/vnd.github.raw''),
                                         (''x-github-api-version'', JStr ''2022-11-28'')]) \<and>
   take 2 (new_effects []
     (effects (request (scripted (Inr octocat) (Inr octocat) (Inr tokens_A2)) cfg0 []
        ''GET'' ''/user'' session_A1 JUndefined
        (Some [(''accept'', JStr ''application/vnd.github.raw''),
               (''x-github-api-version'', JStr ''2022-11-28'')])))) =
     [LoggerDebug ''GET'' ''/user'' JUndefined,
      HttpCall ''GET'' ''/user''
        \<lparr> data = JUndefined, params = None,
          headers = [(''accept'', JStr ''application/vnd.github.raw''),
                     (''authorization'', JStr ''token A1''),
                     (''x-github-api-version'', JStr ''2022-11-28'')],
          timeout = Some 5000 \<rparr>] \<and>
   map_of (headers (api_config cfg0 session_A1 JUndefined
        (Some [(''accept'', JStr ''application/vnd.github.raw''),
               (''x-github-api-version'', JStr ''2022-11-28'')]))) ''authorization'' =
     Some (JStr ''token A1'')"
proof -
  let ?w = "scripted (Inr octocat) (Inr octocat) (Inr tokens_A2)"
  let ?h = "Some [(''accept'', JStr ''application/vnd.github.raw''),
                  (''x-github-api-version'', JStr ''2022-11-28'')]"
  have h1: "accessToken (github (user session_A1)) \<noteq> []" by (simp add: session_A1_def)
  have h2: "''authorization'' \<notin> own_keys ?h" by simp
  note t = request_sends_default_headers [OF h1]
  from t have a: "take 2 (new_effects [] (effects (request ?w cfg0 [] ''GET'' ''/user''
        session_A1 JUndefined ?h))) =
      [LoggerDebug ''GET'' ''/user'' JUndefined,
       HttpCall ''GET'' ''/user'' (api_config cfg0 session_A1 JUndefined ?h)]"
    by blast
  from t h2 have b: "map_of (headers (api_config cfg0 session_A1 JUndefined ?h))
      ''authorization'' = Some (JStr (''token '' @ accessToken (github (user session_A1))))"
    by blast
  have c: "api_config cfg0 session_A1 JUndefined ?h =
      \<lparr> data = JUndefined, params = None,
          headers = [(''accept'', JStr ''application/vnd.github.raw''),
                     (''authorization'', JStr ''token A1''),
                     (''x-github-api-version'', JStr ''2022-11-28'')],
          timeout = Some 5000 \<rparr>"
    by (simp add: api_config_def session_A1_def cfg0_def)
  have d: "accessToken (github (user session_A1)) = ''A1''" by (simp add: session_A1_def)
  from a b h1 h2 show ?thesis unfolding c d by simp
qed

text \<open>
  C8. \<open>getTokens\<close> makes exactly one HTTP call, a POST to the token endpoint with an
  empty body, the header \<^verbatim>\<open>Accept: application/json\<close> and the configured timeout, and
  returns the answer as it is. The parameters are \<^verbatim>\<open>client_id\<close> and
  \<^verbatim>\<open>client_secret\<close> from the configuration with the caller's parameters spread over
  them.
\<close>

theorem getTokens_single_post:
  "getTokens w cfg tr ps =
     (tr @ [HttpPost token_url (JObj []) (token_config cfg ps)],
      post_reply w tr token_url (JObj []) (token_config cfg ps)) \<and>
   token_url = ''https://github.com/login/oauth/access_token'' \<and>
   http_calls (new_effects tr (fst (getTokens w cfg tr ps))) =
     [HttpPost token_url (JObj []) (token_config cfg ps)] \<and>
   headers (token_config cfg ps) = [(''Accept'', JStr ''application/json'')] \<and>
   timeout (token_config cfg ps) = requestTimeout cfg \<and>
   params (token_config cfg ps) =
     Some (assign_all [(''client_id'', opt_str (appId cfg)),
                       (''client_secret'', opt_str (appSecret cfg))] ps) \<and>
   (''client_id'' \<notin> fst ` set ps \<longrightarrow>
      map_of (assign_all [(''client_id'', opt_str (appId cfg)),
                          (''client_secret'', opt_str (appSecret cfg))] ps) ''client_id'' =
        Some (opt_str (appId cfg))) \<and>
   (''client_secret'' \<notin> fst ` set ps \<longrightarrow>
      map_of (assign_all [(''client_id'', opt_str (appId cfg)),
                          (''client_secret'', opt_str (appSecret cfg))] ps) ''client_secret'' =
        Some (opt_str (appSecret cfg))) \<and>
   (\<forall>k v. distinct (map fst ps) \<and> map_of ps k = Some v \<longrightarrow>
      map_of (assign_all [(''client_id'', opt_str (appId cfg)),
                          (''client_secret'', opt_str (appSecret cfg))] ps) k = Some v)"
proof -
  let ?base = "[(''client_id'', opt_str (appId cfg)), (''client_secret'', opt_str (appSecret cfg))]"
  have a: "''client_id'' \<notin> fst ` set ps \<longrightarrow>
      map_of (assign_all ?base ps) ''client_id'' = Some (opt_str (appId cfg))"
    using spread_absent [of "''client_id''" "Some ps" ?base] by simp
  have b: "''client_secret'' \<notin> fst ` set ps \<longrightarrow>
      map_of (assign_all ?base ps) ''client_secret'' = Some (opt_str (appSecret cfg))"
    using spread_absent [of "''client_secret''" "Some ps" ?base] by simp
  have c: "\<forall>k v. distinct (map fst ps) \<and> map_of ps k = Some v \<longrightarrow>
      map_of (assign_all ?base ps) k = Some v"
    by (simp add: map_of_assign_all map_of_rev_distinct)
  have d: "getTokens w cfg tr ps =
     (tr @ [HttpPost token_url (JObj []) (token_config cfg ps)],
      post_reply w tr token_url (JObj []) (token_config cfg ps))"
    by (simp add: getTokens_def)
  have e: "http_calls (new_effects tr (fst (getTokens w cfg tr ps))) =
     [HttpPost token_url (JObj []) (token_config cfg ps)]"
    by (simp add: d new_effects_def http_calls_def)
  have f: "headers (token_config cfg ps) = [(''Accept'', JStr ''application/json'')] \<and>
   timeout (token_config cfg ps) = requestTimeout cfg \<and>
   params (token_config cfg ps) = Some (assign_all ?base ps)"
    by (simp add: token_config_def)
  have g: "token_url = ''https://github.com/login/oauth/access_token''"
    by (simp add: token_url_def)
  from a b c d e f g show ?thesis by blast
qed

theorem getTokens_single_post_witness:
  "''client_id'' \<notin> fst ` set [(''code'', JStr ''0a1b2c'')] \<and>
   ''client_secret'' \<notin> fst ` set [(''code'', JStr ''0a1b2c'')] \<and>
   getTokens (scripted (Inr octocat) (Inr octocat) (Inr tokens_A2)) cfg0 []
     [(''code'', JStr ''0a1b2c'')] =
     ([HttpPost ''https://github.com/login/oauth/access_token'' (JObj [])
         \<lparr> data = JUndefined,
           params = Some [(''client_id'', JStr ''Iv1.app''), (''client_secret'', JStr ''shh''),
                          (''code'', JStr ''0a1b2c'')],
           headers = [(''Accept'', JStr ''application/json'')],
           timeout = Some 5000 \<rparr>],
      Inr tokens_A2)"
proof -
  let ?w = "scripted (Inr octocat) (Inr octocat) (Inr tokens_A2)"
  have h1: "''client_id'' \<notin> fst ` set [(''code'', JStr ''0a1b2c'')]" by simp
  have h2: "''client_secret'' \<notin> fst ` set [(''code'', JStr ''0a1b2c'')]" by simp
  from getTokens_single_post [of ?w cfg0 "[]" "[(''code'', JStr ''0a1b2c'')]"]
  have "getTokens ?w cfg0 [] [(''code'', JStr ''0a1b2c'')] =
     ([] @ [HttpPost token_url (JObj []) (token_config cfg0 [(''code'', JStr ''0a1b2c'')])],
      post_reply ?w [] token_url (JObj []) (token_config cfg0 [(''code'', JStr ''0a1b2c'')]))"
    by blast
  with h1 h2 show ?thesis
    by (simp add: scripted_def token_config_def token_url_def cfg0_def)
qed

section \<open>The claim about \<open>emit\<close>\<close>

text \<open>
  C6. As claimed, the action-specific pipeline would be consulted whenever
  \<^verbatim>\<open>payload.action\<close> is present. The source tests \<^verbatim>\<open>if (payload.action)\<close>: an action
  that is the empty string is present and is not truthy, and \<open>emit\<close> goes to the
  general pipeline without asking the specific one, which here would have answered.
\<close>

theorem emit_empty_action_counterexample:
  "action empty_action \<noteq> None \<and>
   echo_bus [] (specific_key ''issues'' (action empty_action)) empty_action =
     Inr (JStr ''github/event/issues/'') \<and>
   truthy (JStr ''github/event/issues/'') \<and>
   emit echo_bus [] ''issues'' empty_action =
     ([(''github/event/issues'', empty_action)], Inr (JStr ''github/event/issues''))"
  by (simp add: emit_def ctx_serial_def echo_bus_def empty_action_def specific_key_def
      general_key_def)

text \<open>
  C6, amended. The action-specific pipeline (key \<open>event/action\<close>) is consulted if and
  only if \<^verbatim>\<open>payload.action\<close> is truthy, that is present and not the empty string. If it
  yields a truthy result, \<open>emit\<close> returns that result and the general pipeline (key
  \<open>event\<close>) is not invoked. If it yields a falsy result, or the action is not truthy,
  the general pipeline is consulted and its result is returned.
\<close>

theorem emit_dispatch:
  "(specific_key event (action p) \<in> fst ` set (new_effects tr (fst (emit bus tr event p)))) =
     action_truthy (action p) \<and>
   (\<forall>r. action_truthy (action p) \<and> bus tr (specific_key event (action p)) p = Inr r \<and>
        truthy r \<longrightarrow>
      emit bus tr event p = (tr @ [(specific_key event (action p), p)], Inr r) \<and>
      general_key event \<notin> fst ` set (new_effects tr (fst (emit bus tr event p)))) \<and>
   (\<forall>r. action_truthy (action p) \<and> bus tr (specific_key event (action p)) p = Inr r \<and>
        \<not> truthy r \<longrightarrow>
      emit bus tr event p =
        (tr @ [(specific_key event (action p), p), (general_key event, p)],
         bus (tr @ [(specific_key event (action p), p)]) (general_key event) p)) \<and>
   (\<not> action_truthy (action p) \<longrightarrow>
      emit bus tr event p = (tr @ [(general_key event, p)], bus tr (general_key event) p))"
proof -
  have a: "(specific_key event (action p) \<in> fst ` set (new_effects tr (fst (emit bus tr event p)))) =
     action_truthy (action p)"
    by (auto simp: emit_def ctx_serial_def new_effects_def keys_differ split: sum.splits)
  have b: "\<forall>r. action_truthy (action p) \<and> bus tr (specific_key event (action p)) p = Inr r \<and>
        truthy r \<longrightarrow>
      emit bus tr event p = (tr @ [(specific_key event (action p), p)], Inr r) \<and>
      general_key event \<notin> fst ` set (new_effects tr (fst (emit bus tr event p)))"
    using keys_differ [of event "action p"]
    by (auto simp: emit_def ctx_serial_def new_effects_def)
  have c: "\<forall>r. action_truthy (action p) \<and> bus tr (specific_key event (action p)) p = Inr r \<and>
        \<not> truthy r \<longrightarrow>
      emit bus tr event p =
        (tr @ [(specific_key event (action p), p), (general_key event, p)],
         bus (tr @ [(specific_key event (action p), p)]) (general_key event) p)"
    by (simp add: emit_def ctx_serial_def)
  have d: "\<not> action_truthy (action p) \<longrightarrow>
      emit bus tr event p = (tr @ [(general_key event, p)], bus tr (general_key event) p)"
    by (simp add: emit_def ctx_serial_def)
  from a b c d show ?thesis by blast
qed

theorem emit_dispatch_witness:
  "action_truthy (action closed_7) \<and>
   issues_bus [] (specific_key ''issues'' (action closed_7)) closed_7 = Inr JUndefined \<and>
   \<not> truthy JUndefined \<and>
   emit issues_bus [] ''issues'' closed_7 =
     ([(''github/event/issues/closed'', closed_7), (''github/event/issues'', closed_7)],
      Inr (JObj [(''summary'', JStr ''closed #7'')]))"
proof -
  have h1: "action_truthy (action closed_7)" by (simp add: closed_7_def)
  have h2: "issues_bus [] (specific_key ''issues'' (action closed_7)) closed_7 = Inr JUndefined"
    by (simp add: issues_bus_def specific_key_def closed_7_def)
  have h3: "\<not> truthy JUndefined" by simp
  from emit_dispatch [of "''issues''" closed_7 "[]" issues_bus] h1 h2 h3
  have "emit issues_bus [] ''issues'' closed_7 =
        ([] @ [(specific_key ''issues'' (action closed_7), closed_7),
               (general_key ''issues'', closed_7)],
         issues_bus ([] @ [(specific_key ''issues'' (action closed_7), closed_7)])
           (general_key ''issues'') closed_7)"
    by blast
  with h1 h2 h3 show ?thesis
    by (simp add: issues_bus_def specific_key_def general_key_def closed_7_def)
qed

end
